theory Spec2Isabelle
  imports
    Complex_Main
    "HOL-Library.Sublist"
    "HOL-Library.Multiset"
    "HOL-Library.Char_ord"
    "HOL-Library.List_Lexorder"
begin

section \<open>JavaScript values used by the aggregation code\<close>

subsection \<open>Numbers\<close>

text \<open>
  The amounts and limits arrive as JSON numbers and are finite; they are rationals in the
  model (the sign of zero is not modelled). The result of an operation can leave the
  finite numbers: a \<open>jsnum\<close> adds the two infinities and NaN.
\<close>

datatype jsnum = Fin rat | PosInf | NegInf | NaN

text \<open>\<^verbatim>\<open>a / b\<close>\<close>

fun js_div :: "jsnum \<Rightarrow> jsnum \<Rightarrow> jsnum" where
  "js_div NaN _ = NaN"
| "js_div _ NaN = NaN"
| "js_div (Fin a) (Fin b) =
     (if b = 0 then (if a = 0 then NaN else if 0 < a then PosInf else NegInf)
      else Fin (a / b))"
| "js_div (Fin a) PosInf = Fin 0"
| "js_div (Fin a) NegInf = Fin 0"
| "js_div PosInf (Fin b) = (if 0 \<le> b then PosInf else NegInf)"
| "js_div NegInf (Fin b) = (if 0 \<le> b then NegInf else PosInf)"
| "js_div PosInf PosInf = NaN"
| "js_div PosInf NegInf = NaN"
| "js_div NegInf PosInf = NaN"
| "js_div NegInf NegInf = NaN"

text \<open>\<^verbatim>\<open>a * b\<close>\<close>

fun js_mul :: "jsnum \<Rightarrow> jsnum \<Rightarrow> jsnum" where
  "js_mul NaN _ = NaN"
| "js_mul _ NaN = NaN"
| "js_mul (Fin a) (Fin b) = Fin (a * b)"
| "js_mul (Fin a) PosInf = (if a = 0 then NaN else if 0 < a then PosInf else NegInf)"
| "js_mul (Fin a) NegInf = (if a = 0 then NaN else if 0 < a then NegInf else PosInf)"
| "js_mul PosInf (Fin b) = (if b = 0 then NaN else if 0 < b then PosInf else NegInf)"
| "js_mul NegInf (Fin b) = (if b = 0 then NaN else if 0 < b then NegInf else PosInf)"
| "js_mul PosInf PosInf = PosInf"
| "js_mul PosInf NegInf = NegInf"
| "js_mul NegInf PosInf = NegInf"
| "js_mul NegInf NegInf = PosInf"

text \<open>\<^verbatim>\<open>a - b\<close>\<close>

fun js_sub :: "jsnum \<Rightarrow> jsnum \<Rightarrow> jsnum" where
  "js_sub NaN _ = NaN"
| "js_sub _ NaN = NaN"
| "js_sub (Fin a) (Fin b) = Fin (a - b)"
| "js_sub (Fin a) PosInf = NegInf"
| "js_sub (Fin a) NegInf = PosInf"
| "js_sub PosInf (Fin b) = PosInf"
| "js_sub NegInf (Fin b) = NegInf"
| "js_sub PosInf PosInf = NaN"
| "js_sub PosInf NegInf = PosInf"
| "js_sub NegInf PosInf = NegInf"
| "js_sub NegInf NegInf = NaN"

text \<open>\<^verbatim>\<open>a <= b\<close>, false as soon as one side is NaN\<close>

fun js_le :: "jsnum \<Rightarrow> jsnum \<Rightarrow> bool" where
  "js_le NaN _ = False"
| "js_le _ NaN = False"
| "js_le NegInf _ = True"
| "js_le _ PosInf = True"
| "js_le (Fin a) (Fin b) = (a \<le> b)"
| "js_le (Fin a) NegInf = False"
| "js_le PosInf _ = False"

text \<open>\<^verbatim>\<open>Math.min(a, b)\<close>: NaN as soon as one argument is NaN\<close>

definition js_min :: "jsnum \<Rightarrow> jsnum \<Rightarrow> jsnum" where
  "js_min a b = (if a = NaN \<or> b = NaN then NaN else if js_le a b then a else b)"

subsection \<open>Addition in binary64\<close>

text \<open>
  The sums of the report page are added as the code adds them: every \<^verbatim>\<open>+\<close> rounds the
  exact sum to the nearest binary64 number, ties to the even significand, with 53 bits
  of precision, the subnormal numbers below \<open>2\<^sup>-\<^sup>1\<^sup>0\<^sup>2\<^sup>2\<close>, and the infinities beyond the
  largest finite number. Whether two such sums are equal depends on the order of the
  additions. (The budget list and the dashboard totals are modelled with exact
  arithmetic: the properties stated of them compare and order these numbers, and equate
  no two sums that are added in different orders.)
\<close>

definition round_half_even :: "rat \<Rightarrow> int" where
  "round_half_even q =
     (let f = \<lfloor>q\<rfloor>; d = q - of_int f
      in if d < 1 / 2 then f else if 1 / 2 < d then f + 1 else if even f then f else f + 1)"

text \<open>How often a number from 2 on can be halved, or one below 1 doubled, to reach [1, 2).\<close>

function halvings :: "rat \<Rightarrow> nat" where
  "halvings x = (if 2 \<le> x then Suc (halvings (x / 2)) else 0)"
  by pat_completeness auto
termination
proof (relation "measure (\<lambda>x. nat \<lfloor>x\<rfloor>)")
  show "wf (measure (\<lambda>x::rat. nat \<lfloor>x\<rfloor>))" by simp
next
  fix x :: rat assume "2 \<le> x"
  then have "2 \<le> \<lfloor>x\<rfloor>" by (simp add: le_floor_iff)
  then have "(2::rat) \<le> of_int \<lfloor>x\<rfloor>" by linarith
  moreover have "x < of_int \<lfloor>x\<rfloor> + 1" by linarith
  ultimately have "x / 2 < of_int \<lfloor>x\<rfloor>" by linarith
  then have "\<lfloor>x / 2\<rfloor> < \<lfloor>x\<rfloor>" by (simp add: floor_less_iff)
  with \<open>2 \<le> \<lfloor>x\<rfloor>\<close> show "(x / 2, x) \<in> measure (\<lambda>x. nat \<lfloor>x\<rfloor>)" by simp
qed

function doublings :: "rat \<Rightarrow> nat" where
  "doublings x = (if 0 < x \<and> x < 1 then Suc (doublings (2 * x)) else 0)"
  by pat_completeness auto
termination
proof (relation "measure (\<lambda>x. nat \<lfloor>1 / x\<rfloor>)")
  show "wf (measure (\<lambda>x::rat. nat \<lfloor>1 / x\<rfloor>))" by simp
next
  fix x :: rat assume "0 < x \<and> x < 1"
  define y where "y = 1 / x"
  have "1 \<le> y" using \<open>0 < x \<and> x < 1\<close> by (simp add: y_def)
  then have one: "1 \<le> \<lfloor>y\<rfloor>" by (simp add: le_floor_iff)
  then have "(1::rat) \<le> of_int \<lfloor>y\<rfloor>" by linarith
  moreover have "y < of_int \<lfloor>y\<rfloor> + 1" by linarith
  ultimately have "y / 2 < of_int \<lfloor>y\<rfloor>" by linarith
  then have "\<lfloor>y / 2\<rfloor> < \<lfloor>y\<rfloor>" by (simp only: floor_less_iff)
  moreover have "1 / (2 * x) = y / 2" by (simp add: y_def)
  ultimately have "\<lfloor>1 / (2 * x)\<rfloor> < \<lfloor>1 / x\<rfloor>" by (simp only: y_def)
  with one show "(2 * x, x) \<in> measure (\<lambda>x. nat \<lfloor>1 / x\<rfloor>)" by (simp add: y_def)
qed

declare halvings.simps [simp del] doublings.simps [simp del]

definition floor_log2 :: "rat \<Rightarrow> int" where
  "floor_log2 x = (if 1 \<le> x then int (halvings x) else - int (doublings x))"

definition scale2 :: "rat \<Rightarrow> int \<Rightarrow> rat" where
  "scale2 x e = (if 0 \<le> e then x * 2 ^ nat e else x / 2 ^ nat (- e))"

text \<open>The binary64 number nearest to a rational number.\<close>

definition binary64 :: "rat \<Rightarrow> jsnum" where
  "binary64 x =
     (if x = 0 then Fin 0
      else let e = max (floor_log2 \<bar>x\<bar> - 52) (- 1074);
               r = scale2 (of_int (round_half_even (scale2 x (- e)))) e
           in if 2 ^ 1024 \<le> r then PosInf else if r \<le> - (2 ^ 1024) then NegInf else Fin r)"

text \<open>\<^verbatim>\<open>a + b\<close> on numbers\<close>

fun js_add :: "jsnum \<Rightarrow> jsnum \<Rightarrow> jsnum" where
  "js_add NaN _ = NaN"
| "js_add _ NaN = NaN"
| "js_add (Fin a) (Fin b) = binary64 (a + b)"
| "js_add (Fin a) PosInf = PosInf"
| "js_add (Fin a) NegInf = NegInf"
| "js_add PosInf (Fin b) = PosInf"
| "js_add NegInf (Fin b) = NegInf"
| "js_add PosInf PosInf = PosInf"
| "js_add PosInf NegInf = NaN"
| "js_add NegInf PosInf = NaN"
| "js_add NegInf NegInf = NegInf"

text \<open>The result of an operation that is computed exactly above, rounded.\<close>

fun rounded :: "jsnum \<Rightarrow> jsnum" where
  "rounded (Fin r) = binary64 r"
| "rounded PosInf = PosInf"
| "rounded NegInf = NegInf"
| "rounded NaN = NaN"

subsection \<open>Strings\<close>

text \<open>
  Strings are compared by code unit (\<^verbatim>\<open><=\<close>, \<^verbatim>\<open>>=\<close>), which on lists of characters is
  the lexicographic order. The strings of the data model are ASCII: ISO dates
  \<^verbatim>\<open>YYYY-MM-DD\<close>, months \<^verbatim>\<open>YYYY-MM\<close>, category names.
\<close>

text \<open>\<^verbatim>\<open>s.startsWith(p)\<close>\<close>

definition startsWith :: "string \<Rightarrow> string \<Rightarrow> bool" where
  "startsWith s p = (take (length p) s = p)"

text \<open>
  \<^verbatim>\<open>a.localeCompare(b)\<close>: negative, zero or positive. On the strings compared in this
  program (month keys \<^verbatim>\<open>YYYY-MM\<close>, and month labels, which share one pattern of letter
  case) the collation order is the lexicographic order of the characters.
\<close>

definition localeCompare :: "string \<Rightarrow> string \<Rightarrow> jsnum" where
  "localeCompare a b = (if a < b then Fin (- 1) else if a = b then Fin 0 else Fin 1)"

subsection \<open>Array.prototype.sort\<close>

text \<open>
  \<^verbatim>\<open>xs.sort(cmp)\<close> is stable, and a comparator result that is NaN counts as zero. For a
  consistent comparator the sorted array is determined by these two facts, so any stable
  sort computes it; the model inserts from the right, every element in front of the
  first one it does not have to follow. (For an inconsistent comparator the language
  leaves the order to the implementation; the model then answers as a sort does that
  compares neighbours only.)
\<close>

fun goes_after :: "jsnum \<Rightarrow> bool" where
  "goes_after (Fin v) = (0 < v)"
| "goes_after PosInf = True"
| "goes_after NegInf = False"
| "goes_after NaN = False"

fun sort_insert :: "('a \<Rightarrow> 'a \<Rightarrow> jsnum) \<Rightarrow> 'a \<Rightarrow> 'a list \<Rightarrow> 'a list" where
  "sort_insert cmp x [] = [x]"
| "sort_insert cmp x (y # ys) =
     (if goes_after (cmp x y) then y # sort_insert cmp x ys else x # y # ys)"

definition array_sort :: "('a \<Rightarrow> 'a \<Rightarrow> jsnum) \<Rightarrow> 'a list \<Rightarrow> 'a list" where
  "array_sort cmp xs = foldr (sort_insert cmp) xs []"

subsection \<open>Data fetched by the hooks\<close>

text \<open>
  The value a query hook hands to a page is typed as an array, and each page guards
  against the other cases: a falsy value (\<^verbatim>\<open>null\<close>; \<^verbatim>\<open>undefined\<close> is replaced by \<^verbatim>\<open>[]\<close>
  in the destructuring), or a truthy value that is not an array and has no array
  methods.
\<close>

datatype 'a fetched = Array "'a list" | Falsy | NonArray

fun truthy :: "'a fetched \<Rightarrow> bool" where
  "truthy (Array _) = True"
| "truthy Falsy = False"
| "truthy NonArray = True"

fun isArray :: "'a fetched \<Rightarrow> bool" where
  "isArray (Array _) = True"
| "isArray Falsy = False"
| "isArray NonArray = False"

text \<open>What a callback does: it returns a value, or an exception leaves it.\<close>

datatype js_error = TypeError

datatype 'a outcome = Returned 'a | Thrown js_error

section \<open>The data model\<close>

record expense =
  expense_id :: "nat option"
  description :: string
  amount :: rat
  category :: string
  date :: string

record budget =
  budget_id :: "nat option"
  category :: string
  monthlyLimit :: rat
  month :: string
  spent :: rat
  createdAt :: "string option"

record budget_with_spending = budget +
  actualSpent :: rat
  remaining :: rat
  percentageUsed :: jsnum
  isOverBudget :: bool

section \<open>Budget list: spending per budget and the display order\<close>

text \<open>The callback of \<^verbatim>\<open>budgets.map\<close> in \<^verbatim>\<open>budgetsWithSpending\<close>.\<close>

definition budget_progress :: "expense list \<Rightarrow> budget \<Rightarrow> budget_with_spending" where
  "budget_progress expenses b =
     (let categoryExpenses =
            filter (\<lambda>e. expense.category e = budget.category b \<and> startsWith (date e) (month b))
              expenses;
          actual = foldl (\<lambda>sum e. sum + amount e) 0 categoryExpenses;
          rest = monthlyLimit b - actual;
          percentage = js_mul (js_div (Fin actual) (Fin (monthlyLimit b))) (Fin 100);
          over = (actual > monthlyLimit b)
      in budget.extend b
           (budget_with_spending.fields actual rest (js_min percentage (Fin 100)) over))"

text \<open>The comparator of the \<^verbatim>\<open>sort\<close> in \<^verbatim>\<open>budgetsWithSpending\<close>.\<close>

definition rank_compare :: "budget_with_spending \<Rightarrow> budget_with_spending \<Rightarrow> jsnum" where
  "rank_compare a b =
     (if month a \<noteq> month b then localeCompare (month b) (month a)
      else if isOverBudget a \<noteq> isOverBudget b then (if isOverBudget a then Fin (- 1) else Fin 1)
      else js_sub (percentageUsed b) (percentageUsed a))"

definition budgetsWithSpending ::
  "budget fetched \<Rightarrow> expense fetched \<Rightarrow> string \<Rightarrow> budget_with_spending list outcome" where
  "budgetsWithSpending budgets expenses filterMonth =
     (if \<not> truthy budgets \<or> \<not> truthy expenses then Returned []
      else case budgets of
        Array bs \<Rightarrow>
          (let shown = filter (\<lambda>b. filterMonth = [] \<or> month b = filterMonth) bs
           in case expenses of
                Array es \<Rightarrow> Returned (array_sort rank_compare (map (budget_progress es) shown))
              | _ \<Rightarrow> (if shown = [] then Returned [] else Thrown TypeError))
      | _ \<Rightarrow> Thrown TypeError)"

section \<open>Objects used as dictionaries\<close>

text \<open>
  The accumulators are object literals, typed \<^verbatim>\<open>Record<string, number>\<close>, whose prototype
  is \<^verbatim>\<open>Object.prototype\<close>. A value read from one is \<^verbatim>\<open>undefined\<close>, a number, a string
  (the result of \<^verbatim>\<open>+\<close> on something that is not a number; it is never empty and never a
  numeral, and its text is not modelled), or a function or object inherited from the
  prototype.
\<close>

datatype js_value = Undefined | Number jsnum | Text | ObjectRef

text \<open>
  The own properties are kept in the order of their creation.
\<close>

type_synonym js_object = "(string \<times> js_value) list"

text \<open>The methods of \<^verbatim>\<open>Object.prototype\<close>; its accessor \<^verbatim>\<open>__proto__\<close> is treated apart.\<close>

definition object_prototype_methods :: "string list" where
  "object_prototype_methods =
     [''constructor'', ''hasOwnProperty'', ''isPrototypeOf'', ''propertyIsEnumerable'',
      ''toLocaleString'', ''toString'', ''valueOf'', ''__defineGetter__'',
      ''__defineSetter__'', ''__lookupGetter__'', ''__lookupSetter__'']"

text \<open>
  \<^verbatim>\<open>acc[k]\<close>: the own property, else what the prototype has under that name: a method,
  or, for \<^verbatim>\<open>__proto__\<close>, the prototype itself.
\<close>

definition obj_get :: "js_object \<Rightarrow> string \<Rightarrow> js_value" where
  "obj_get obj k =
     (case map_of obj k of
        Some v \<Rightarrow> v
      | None \<Rightarrow> if k = ''__proto__'' \<or> k \<in> set object_prototype_methods then ObjectRef
                else Undefined)"

text \<open>
  \<^verbatim>\<open>acc[k] = v\<close> for a number or string \<open>v\<close>: writing an existing key keeps its place,
  writing a new key appends it, except that the setter of \<^verbatim>\<open>__proto__\<close> ignores a value
  that is not an object and stores nothing.
\<close>

fun obj_set :: "js_object \<Rightarrow> string \<Rightarrow> js_value \<Rightarrow> js_object" where
  "obj_set [] k v = (if k = ''__proto__'' then [] else [(k, v)])"
| "obj_set ((k', v') # rest) k v =
     (if k' = k then (k, v) # rest else (k', v') # obj_set rest k v)"

text \<open>\<^verbatim>\<open>x || 0\<close>: zero, NaN and \<^verbatim>\<open>undefined\<close> are falsy.\<close>

fun truthy_value :: "js_value \<Rightarrow> bool" where
  "truthy_value Undefined = False"
| "truthy_value (Number n) = (n \<noteq> Fin 0 \<and> n \<noteq> NaN)"
| "truthy_value Text = True"
| "truthy_value ObjectRef = True"

definition or_zero :: "js_value \<Rightarrow> js_value" where
  "or_zero v = (if truthy_value v then v else Number (Fin 0))"

text \<open>
  \<^verbatim>\<open>x + n\<close> for a number \<open>n\<close>: the sum of two numbers; a string, function or object on
  the left makes it a concatenation of strings.
\<close>

fun js_plus :: "js_value \<Rightarrow> jsnum \<Rightarrow> js_value" where
  "js_plus (Number a) n = Number (js_add a n)"
| "js_plus Text n = Text"
| "js_plus ObjectRef n = Text"
| "js_plus Undefined n = Number NaN"

text \<open>The number a value is converted to by an arithmetic operator other than \<^verbatim>\<open>+\<close>.\<close>

fun to_number :: "js_value \<Rightarrow> jsnum" where
  "to_number (Number n) = n"
| "to_number Undefined = NaN"
| "to_number Text = NaN"
| "to_number ObjectRef = NaN"

text \<open>
  \<^verbatim>\<open>Object.entries\<close> lists the keys that are array indices first, in ascending numeric
  order, and then the other keys in the order of their creation. An array index is the
  decimal numeral, without leading zeros, of a number below \<open>2\<^sup>3\<^sup>2 - 1\<close>.
\<close>

definition is_digit :: "char \<Rightarrow> bool" where
  "is_digit c = (CHR ''0'' \<le> c \<and> c \<le> CHR ''9'')"

definition digit_value :: "char \<Rightarrow> nat" where
  "digit_value c = of_char c - of_char CHR ''0''"

definition decimal_value :: "string \<Rightarrow> nat" where
  "decimal_value s = foldl (\<lambda>n c. 10 * n + digit_value c) 0 s"

definition is_array_index :: "string \<Rightarrow> bool" where
  "is_array_index k =
     (k \<noteq> [] \<and> list_all is_digit k \<and> (k = ''0'' \<or> hd k \<noteq> CHR ''0'') \<and>
      decimal_value k < 4294967295)"

definition Object_entries :: "js_object \<Rightarrow> (string \<times> js_value) list" where
  "Object_entries obj =
     sort_key (\<lambda>(k, v). decimal_value k) (filter (\<lambda>(k, v). is_array_index k) obj) @
     filter (\<lambda>(k, v). \<not> is_array_index k) obj"

section \<open>Report page\<close>

record chart_datum =
  name :: string
  "value" :: js_value

text \<open>The filter of \<^verbatim>\<open>filteredExpenses\<close>; an empty string is an absent criterion.\<close>

fun elements :: "'a fetched \<Rightarrow> 'a list" where
  "elements (Array xs) = xs"
| "elements Falsy = []"
| "elements NonArray = []"

definition filteredExpenses ::
  "expense fetched \<Rightarrow> string \<Rightarrow> string \<Rightarrow> string \<Rightarrow> expense list outcome" where
  "filteredExpenses expenses startDate endDate selectedCategory =
     (if \<not> isArray expenses then Returned []
      else Returned (filter
        (\<lambda>e. let dateMatch = (startDate = [] \<or> date e \<ge> startDate) \<and>
                              (endDate = [] \<or> date e \<le> endDate);
                  categoryMatch = (selectedCategory = [] \<or> expense.category e = selectedCategory)
              in dateMatch \<and> categoryMatch)
        (elements expenses)))"

text \<open>The two reducers of \<^verbatim>\<open>reportMetrics\<close>, and the lists made of them.\<close>

definition total_spent :: "expense list \<Rightarrow> jsnum" where
  "total_spent es = foldl (\<lambda>sum e. js_add sum (Fin (amount e))) (Fin 0) es"

definition category_spending :: "expense list \<Rightarrow> js_object" where
  "category_spending es =
     foldl (\<lambda>acc e. obj_set acc (expense.category e)
                       (js_plus (or_zero (obj_get acc (expense.category e))) (Fin (amount e))))
       [] es"

text \<open>
  The comparator \<^verbatim>\<open>b.value - a.value\<close>. Only the sign of the difference is used, and
  rounding does not change the sign of a difference of two binary64 numbers: the
  difference is left exact.
\<close>

definition category_data :: "expense list \<Rightarrow> chart_datum list" where
  "category_data es =
     array_sort (\<lambda>a b. js_sub (to_number (value b)) (to_number (value a)))
       (map (\<lambda>(n, v). \<lparr>name = n, value = v\<rparr>) (Object_entries (category_spending es)))"

definition monthly_spending :: "expense list \<Rightarrow> js_object" where
  "monthly_spending es =
     foldl (\<lambda>acc e. let m = take 7 (date e)
                     in obj_set acc m (js_plus (or_zero (obj_get acc m)) (Fin (amount e))))
       [] es"

text \<open>
  \<^verbatim>\<open>new Date(name + '-01').toLocaleDateString('en-US', {month: 'short', year: 'numeric'})\<close>.
  A key \<^verbatim>\<open>YYYY-MM\<close> with a month from 01 to 12 gives a date-only ISO string, which is read
  as midnight UTC and printed in the local time zone: west of UTC that is the evening
  before, so the label names the month before. Every other key is modelled as an invalid
  date, whose label is \<^verbatim>\<open>Invalid Date\<close> (an engine may accept more formats than the ISO
  one). The year is printed without leading zeros; the year 0000 is not modelled.
\<close>

definition short_month_names :: "string list" where
  "short_month_names =
     [''Jan'', ''Feb'', ''Mar'', ''Apr'', ''May'', ''Jun'',
      ''Jul'', ''Aug'', ''Sep'', ''Oct'', ''Nov'', ''Dec'']"

fun show_nat :: "nat \<Rightarrow> string" where
  "show_nat n =
     (if n < 10 then [''0123456789'' ! n]
      else show_nat (n div 10) @ [''0123456789'' ! (n mod 10)])"

declare show_nat.simps [simp del]

definition month_label :: "bool \<Rightarrow> string \<Rightarrow> string" where
  "month_label west key =
     (let y = take 4 key; m = drop 5 key; mm = decimal_value m
      in if length key = 7 \<and> key ! 4 = CHR ''-'' \<and> list_all is_digit y \<and> list_all is_digit m \<and>
            1 \<le> mm \<and> mm \<le> 12
         then (if \<not> west then short_month_names ! (mm - 1) @ '' '' @ show_nat (decimal_value y)
               else if mm = 1 then ''Dec '' @ show_nat (decimal_value y - 1)
               else short_month_names ! (mm - 2) @ '' '' @ show_nat (decimal_value y))
         else ''Invalid Date'')"

definition monthly_data :: "bool \<Rightarrow> expense list \<Rightarrow> chart_datum list" where
  "monthly_data west es =
     array_sort (\<lambda>a b. localeCompare (name a) (name b))
       (map (\<lambda>(n, v). \<lparr>name = month_label west n, value = v\<rparr>)
          (Object_entries (monthly_spending es)))"

text \<open>\<^verbatim>\<open>categoryData[0] || null\<close>\<close>

fun top_category :: "chart_datum list \<Rightarrow> chart_datum option" where
  "top_category [] = None"
| "top_category (d # _) = Some d"

record report_metrics =
  totalSpent :: jsnum
  averageExpense :: jsnum
  expenseCount :: nat
  categoryData :: "chart_datum list"
  monthlyData :: "chart_datum list"
  topCategory :: "chart_datum option"

text \<open>\<^verbatim>\<open>reportMetrics\<close>; \<open>None\<close> is \<^verbatim>\<open>null\<close>. The flag says whether local time is west of UTC.\<close>

definition reportMetrics :: "bool \<Rightarrow> expense list \<Rightarrow> report_metrics option outcome" where
  "reportMetrics west filtered =
     (if length filtered = 0 then Returned None
      else Returned (Some
        \<lparr>totalSpent = total_spent filtered,
         averageExpense = rounded (js_div (total_spent filtered) (Fin (of_nat (length filtered)))),
         expenseCount = length filtered,
         categoryData = category_data filtered,
         monthlyData = monthly_data west filtered,
         topCategory = top_category (category_data filtered)\<rparr>))"

section \<open>Dashboard page\<close>

text \<open>
  \<^verbatim>\<open>dashboardMetrics\<close>. Its reducer \<^verbatim>\<open>categorySpending\<close> is, word for word, the one of the
  report page, applied to the expenses of the selected month; its entries are not sorted.
\<close>

record dashboard_metrics =
  totalMonthlySpend :: rat
  totalBudget :: rat
  remainingBudget :: rat
  categoryData :: "chart_datum list"
  categoriesCount :: nat
  recentExpenses :: "expense list"

definition dashboardMetrics ::
  "expense fetched \<Rightarrow> budget fetched \<Rightarrow> string \<Rightarrow> dashboard_metrics option outcome" where
  "dashboardMetrics expenses budgets selectedMonth =
     (if \<not> truthy expenses \<or> \<not> truthy budgets \<or> \<not> isArray expenses \<or> \<not> isArray budgets
      then Returned None
      else
        (let currentMonthExpenses =
               filter (\<lambda>e. startsWith (date e) selectedMonth) (elements expenses);
             monthlySpend = foldl (\<lambda>sum e. sum + amount e) 0 currentMonthExpenses;
             currentMonthBudgets = filter (\<lambda>b. month b = selectedMonth) (elements budgets);
             budgetSum = foldl (\<lambda>sum b. sum + monthlyLimit b) 0 currentMonthBudgets;
             categorySpending = category_spending currentMonthExpenses;
             uniqueCategories = set (map expense.category (elements expenses))
         in Returned (Some
              \<lparr>totalMonthlySpend = monthlySpend,
               totalBudget = budgetSum,
               remainingBudget = budgetSum - monthlySpend,
               categoryData =
                 map (\<lambda>(n, v). \<lparr>name = n, value = v\<rparr>) (Object_entries categorySpending),
               categoriesCount = card uniqueCategories,
               recentExpenses = take 5 (elements expenses)\<rparr>)))"

section \<open>Notions the properties are stated with\<close>

text \<open>The distinct elements of a list, each at the place of its first occurrence.\<close>

definition first_occurrences :: "'a list \<Rightarrow> 'a list" where
  "first_occurrences xs = rev (remdups (rev xs))"

text \<open>The order in which an object lists keys that were created in the given order.\<close>

definition property_order :: "string list \<Rightarrow> string list" where
  "property_order ks =
     sort_key decimal_value (filter is_array_index ks) @ filter (\<lambda>k. \<not> is_array_index k) ks"

text \<open>What was spent in a category: its amounts added in the order of the list.\<close>

definition category_total :: "expense list \<Rightarrow> string \<Rightarrow> jsnum" where
  "category_total es c =
     foldl js_add (Fin 0) (map (\<lambda>e. Fin (amount e)) (filter (\<lambda>e. expense.category e = c) es))"

text \<open>The sum of the values of a list of entries, added in the order of the list.\<close>

definition sum_of_values :: "chart_datum list \<Rightarrow> jsnum" where
  "sum_of_values ds = foldl (\<lambda>sum d. js_add sum (to_number (value d))) (Fin 0) ds"

text \<open>A name that the prototype of an object literal answers to.\<close>

definition prototype_member :: "string \<Rightarrow> bool" where
  "prototype_member k = (k = ''__proto__'' \<or> k \<in> set object_prototype_methods)"

text \<open>
  The display order of two budgets: the later month first; in one month the budget that
  is over first; otherwise the higher percentage first.
\<close>

definition display_order :: "budget_with_spending \<Rightarrow> budget_with_spending \<Rightarrow> bool" where
  "display_order a b =
     (month b < month a \<or>
      month a = month b \<and>
        (isOverBudget a \<and> \<not> isOverBudget b \<or>
         isOverBudget a = isOverBudget b \<and> js_le (percentageUsed b) (percentageUsed a)))"

section \<open>Example data\<close>


definition example_expense :: "string \<Rightarrow> rat \<Rightarrow> string \<Rightarrow> expense" where
  "example_expense c a d =
     \<lparr>expense_id = None, description = ''item'', amount = a, category = c, date = d\<rparr>"

definition example_budget :: "string \<Rightarrow> rat \<Rightarrow> string \<Rightarrow> budget" where
  "example_budget c l m =
     \<lparr>budget_id = None, category = c, monthlyLimit = l, month = m, spent = 0, createdAt = None\<rparr>"

definition overspent_expenses :: "expense list" where
  "overspent_expenses =
     [example_expense ''Food'' 100 ''2025-08-01'',
      example_expense ''Transport'' 7 ''2025-08-02'',
      example_expense ''Food'' 50 ''2025-08-15'',
      example_expense ''Food'' 9 ''2025-09-01'']"

definition tied_numeric_expenses :: "expense list" where
  "tied_numeric_expenses =
     [example_expense ''2'' 5 ''2025-08-01'', example_expense ''1'' 5 ''2025-08-02'']"

definition mixed_expenses :: "expense list" where
  "mixed_expenses =
     [example_expense ''Food'' 3 ''2025-08-01'',
      example_expense ''10'' 5 ''2025-08-02'',
      example_expense ''Rent'' 9 ''2025-08-03'',
      example_expense ''9'' 5 ''2025-08-04'',
      example_expense ''Food'' 2 ''2025-08-05'']"

definition ranking_budgets :: "budget list" where
  "ranking_budgets =
     [example_budget ''Transport'' 100 ''2025-08'',
      example_budget ''Food'' 100 ''2025-08'',
      example_budget ''Food'' 50 ''2025-09'',
      example_budget ''Transport'' 0 ''2025-08'']"

definition summer_expenses :: "expense list" where
  "summer_expenses =
     [example_expense ''Food'' 10 ''2024-07-15'', example_expense ''Food'' 20 ''2024-08-15'']"

definition new_year_expenses :: "expense list" where
  "new_year_expenses =
     [example_expense ''Food'' 10 ''2024-12-15'', example_expense ''Food'' 20 ''2025-01-15'']"

definition spec_example_expenses :: "expense list" where
  "spec_example_expenses =
     [example_expense ''Food'' 10 ''2025-08-01'',
      example_expense ''Food'' 20 ''2025-08-15'',
      example_expense ''Transport'' 5 ''2025-08-02'']"


definition proto_expenses :: "expense list" where
  "proto_expenses =
     [example_expense ''Food'' 3 ''2025-08-01'',
      example_expense ''__proto__'' 5 ''2025-08-02'']"

text \<open>Three budgets of one month: 10 spent of 100, nothing of 0, 90 of 100.\<close>

definition unspent_budgets :: "budget list" where
  "unspent_budgets =
     [example_budget ''Food'' 100 ''2025-08'',
      example_budget ''Rent'' 0 ''2025-08'',
      example_budget ''Transport'' 100 ''2025-08'']"

definition unspent_expenses :: "expense list" where
  "unspent_expenses =
     [example_expense ''Food'' 10 ''2025-08-01'',
      example_expense ''Transport'' 90 ''2025-08-02'']"

lemmas example_defs = example_expense_def example_budget_def overspent_expenses_def

section \<open>The stable sort\<close>

lemma mset_sort_insert: "mset (sort_insert cmp x ys) = add_mset x (mset ys)"
  by (induction ys) simp_all

lemma mset_array_sort: "mset (array_sort cmp xs) = mset xs"
  by (induction xs) (simp_all add: array_sort_def mset_sort_insert)

lemma set_array_sort: "set (array_sort cmp xs) = set xs"
  by (metis mset_array_sort set_mset_mset)

lemma filter_sort_insert:
  assumes "\<And>y. y \<in> set ys \<Longrightarrow> P x \<Longrightarrow> P y \<Longrightarrow> \<not> goes_after (cmp x y)"
  shows "filter P (sort_insert cmp x ys) = (if P x then x # filter P ys else filter P ys)"
  using assms by (induction ys) auto

lemma filter_array_sort:
  assumes "\<And>x y. x \<in> set xs \<Longrightarrow> y \<in> set xs \<Longrightarrow> P x \<Longrightarrow> P y \<Longrightarrow> \<not> goes_after (cmp x y)"
  shows "filter P (array_sort cmp xs) = filter P xs"
  using assms
proof (induction xs)
  case Nil
  show ?case by (simp add: array_sort_def)
next
  case (Cons x xs)
  have tail: "filter P (array_sort cmp xs) = filter P xs"
    using Cons by simp
  have "filter P (sort_insert cmp x (array_sort cmp xs)) =
          (if P x then x # filter P (array_sort cmp xs) else filter P (array_sort cmp xs))"
    by (rule filter_sort_insert) (rule Cons.prems, simp_all add: set_array_sort)
  with tail show ?case by (simp add: array_sort_def)
qed

lemma set_sort_insert: "set (sort_insert cmp x ys) = insert x (set ys)"
  by (induction ys) auto

lemma sorted_wrt_sort_insert:
  assumes "sorted_wrt le ys"
    and "\<And>y. y \<in> set ys \<Longrightarrow> goes_after (cmp x y) \<Longrightarrow> le y x"
    and "\<And>y. y \<in> set ys \<Longrightarrow> \<not> goes_after (cmp x y) \<Longrightarrow> le x y"
    and "\<And>y z. y \<in> set ys \<Longrightarrow> z \<in> set ys \<Longrightarrow> le x y \<Longrightarrow> le y z \<Longrightarrow> le x z"
  shows "sorted_wrt le (sort_insert cmp x ys)"
  using assms
proof (induction ys)
  case Nil
  show ?case by simp
next
  case (Cons y ys)
  have sorted_tail: "sorted_wrt le ys" and y_first: "\<And>z. z \<in> set ys \<Longrightarrow> le y z"
    using Cons.prems(1) by simp_all
  show ?case
  proof (cases "goes_after (cmp x y)")
    case True
    have "sorted_wrt le (sort_insert cmp x ys)"
    proof (rule Cons.IH [OF sorted_tail])
      show "\<And>z. z \<in> set ys \<Longrightarrow> goes_after (cmp x z) \<Longrightarrow> le z x"
        using Cons.prems(2) by simp
      show "\<And>z. z \<in> set ys \<Longrightarrow> \<not> goes_after (cmp x z) \<Longrightarrow> le x z"
        using Cons.prems(3) by simp
      show "\<And>u z. u \<in> set ys \<Longrightarrow> z \<in> set ys \<Longrightarrow> le x u \<Longrightarrow> le u z \<Longrightarrow> le x z"
        by (rule Cons.prems(4)) simp_all
    qed
    moreover have "le y x"
      using Cons.prems(2) True by simp
    ultimately show ?thesis
      using True y_first by (simp add: set_sort_insert)
  next
    case False
    then have xy: "le x y"
      using Cons.prems(3) by simp
    have "le x z" if "z \<in> set ys" for z
      by (rule Cons.prems(4) [of y z]) (use xy y_first that in simp_all)
    with xy Cons.prems(1) False show ?thesis by simp
  qed
qed

lemma sorted_wrt_array_sort:
  assumes total: "\<And>x y. x \<in> set xs \<Longrightarrow> y \<in> set xs \<Longrightarrow> goes_after (cmp x y) \<Longrightarrow> le y x"
    and le: "\<And>x y. x \<in> set xs \<Longrightarrow> y \<in> set xs \<Longrightarrow> \<not> goes_after (cmp x y) \<Longrightarrow> le x y"
    and trans: "\<And>x y z. x \<in> set xs \<Longrightarrow> y \<in> set xs \<Longrightarrow> z \<in> set xs \<Longrightarrow> le x y \<Longrightarrow> le y z \<Longrightarrow> le x z"
  shows "sorted_wrt le (array_sort cmp xs)"
  using assms
proof (induction xs)
  case Nil
  show ?case by (simp add: array_sort_def)
next
  case (Cons x xs)
  have "sorted_wrt le (array_sort cmp xs)"
  proof (rule Cons.IH)
    show "\<And>u v. u \<in> set xs \<Longrightarrow> v \<in> set xs \<Longrightarrow> goes_after (cmp u v) \<Longrightarrow> le v u"
      by (rule Cons.prems(1)) simp_all
    show "\<And>u v. u \<in> set xs \<Longrightarrow> v \<in> set xs \<Longrightarrow> \<not> goes_after (cmp u v) \<Longrightarrow> le u v"
      by (rule Cons.prems(2)) simp_all
    show "\<And>u v w. u \<in> set xs \<Longrightarrow> v \<in> set xs \<Longrightarrow> w \<in> set xs \<Longrightarrow> le u v \<Longrightarrow> le v w \<Longrightarrow> le u w"
      by (rule Cons.prems(3)) simp_all
  qed
  then have "sorted_wrt le (sort_insert cmp x (array_sort cmp xs))"
  proof (rule sorted_wrt_sort_insert)
    show "\<And>y. y \<in> set (array_sort cmp xs) \<Longrightarrow> goes_after (cmp x y) \<Longrightarrow> le y x"
      by (rule Cons.prems(1)) (simp_all add: set_array_sort)
    show "\<And>y. y \<in> set (array_sort cmp xs) \<Longrightarrow> \<not> goes_after (cmp x y) \<Longrightarrow> le x y"
      by (rule Cons.prems(2)) (simp_all add: set_array_sort)
    show "\<And>y z. y \<in> set (array_sort cmp xs) \<Longrightarrow> z \<in> set (array_sort cmp xs) \<Longrightarrow>
            le x y \<Longrightarrow> le y z \<Longrightarrow> le x z"
      by (rule Cons.prems(3)) (simp_all add: set_array_sort)
  qed
  then show ?case by (simp add: array_sort_def)
qed

section \<open>Budget progress\<close>




lemma array_sort_single: "array_sort cmp [x] = [x]"
  by (simp add: array_sort_def)

lemmas progress_defs =
  budget_progress_def Let_def budget.extend_def budget_with_spending.fields_def
  budget.truncate_def



text \<open>
  C5, as the specification states it, fails: with a limit of zero the quotient is an
  infinity or NaN, and the percentage of a budget with spending is 100, not 0.
\<close>

theorem budget_progress_zero_limit_counterexample:
  "monthlyLimit (example_budget ''Food'' 0 ''2025-08'') = 0 \<and>
   percentageUsed (budget_progress overspent_expenses (example_budget ''Food'' 0 ''2025-08''))
     = Fin 100 \<and>
   percentageUsed (budget_progress overspent_expenses (example_budget ''Food'' 0 ''2025-08''))
     \<noteq> Fin 0"
  by (simp add: example_defs progress_defs startsWith_def js_min_def)

text \<open>
  C5, amended. For a budget with a monthly limit of zero the computation raises nothing;
  the budget is over exactly when the spending is positive, the remainder is the negated
  spending, and the percentage is the quotient by zero cut off at 100: 100 for positive
  spending, NaN for none, minus infinity for negative spending.
\<close>

theorem budget_progress_zero_limit:
  assumes "monthlyLimit b = 0"
  shows "let p = budget_progress es b
         in isOverBudget p = (actualSpent p > 0) \<and>
            remaining p = - actualSpent p \<and>
            percentageUsed p =
              (if 0 < actualSpent p then Fin 100 else if actualSpent p = 0 then NaN else NegInf) \<and>
            budgetsWithSpending (Array [b]) (Array es) [] = Returned [p]"
  using assms
  by (simp add: progress_defs js_min_def budgetsWithSpending_def array_sort_single)

theorem budget_progress_zero_limit_witness:
  "monthlyLimit (example_budget ''Food'' 0 ''2025-08'') = 0 \<and>
   isOverBudget (budget_progress overspent_expenses (example_budget ''Food'' 0 ''2025-08'')) \<and>
   percentageUsed (budget_progress [] (example_budget ''Food'' 0 ''2025-08'')) = NaN \<and>
   (\<exists>p. budgetsWithSpending (Array [example_budget ''Food'' 0 ''2025-08''])
          (Array overspent_expenses) [] = Returned [p] \<and>
        remaining p = - 150 \<and> percentageUsed p = Fin 100)"
  using budget_progress_zero_limit [of "example_budget ''Food'' 0 ''2025-08''" overspent_expenses]
    budget_progress_zero_limit [of "example_budget ''Food'' 0 ''2025-08''" "[]"]
  by (simp add: example_defs progress_defs startsWith_def)

section \<open>Binary64 sums that do not round\<close>

lemma halvings_bounds:
  assumes "1 \<le> x"
  shows "2 ^ halvings x \<le> x \<and> x < 2 * 2 ^ halvings x"
  using assms
proof (induction x rule: halvings.induct)
  case (1 x)
  show ?case
  proof (cases "2 \<le> x")
    case True
    then have "1 \<le> x / 2" by simp
    with "1.IH" True have "2 ^ halvings (x / 2) \<le> x / 2 \<and> x / 2 < 2 * 2 ^ halvings (x / 2)"
      by simp
    moreover have "halvings x = Suc (halvings (x / 2))"
      using True by (subst halvings.simps) simp
    ultimately show ?thesis by simp
  next
    case False
    then have "halvings x = 0" by (subst halvings.simps) simp
    with False "1.prems" show ?thesis by simp
  qed
qed

lemma round_half_even_of_int: "round_half_even (of_int m) = m"
  by (simp add: round_half_even_def)

lemma binary64_int:
  assumes int: "x \<in> \<int>" and small: "\<bar>x\<bar> < 2 ^ 53"
  shows "binary64 x = Fin x"
proof (cases "x = 0")
  case True
  then show ?thesis by (simp add: binary64_def)
next
  case False
  obtain n :: int where n: "x = of_int n"
    using int by (auto elim: Ints_cases)
  with False have "n \<noteq> 0" by auto
  then have one: "1 \<le> \<bar>x\<bar>"
    unfolding n by (metis of_int_abs abs_ge_zero dual_order.order_iff_strict int_one_le_iff_zero_less of_int_1_le_iff zero_less_abs_iff)
  define h where "h = halvings \<bar>x\<bar>"
  have "(2::rat) ^ h \<le> \<bar>x\<bar>"
    using halvings_bounds [OF one] by (simp add: h_def)
  with small have "(2::rat) ^ h < 2 ^ 53" by linarith
  then have h: "h < 53" by (rule power_less_imp_less_exp [rotated]) simp
  define k where "k = 52 - h"
  have e: "max (floor_log2 \<bar>x\<bar> - 52) (- 1074) = - int k"
    using h one by (simp add: floor_log2_def h_def [symmetric] k_def)
  have up: "scale2 x (- (- int k)) = of_int (n * 2 ^ k)"
    by (simp add: scale2_def n)
  have down: "scale2 (of_int (n * 2 ^ k)) (- int k) = x"
    by (cases "k = 0") (simp_all add: scale2_def n)
  have r: "scale2 (of_int (round_half_even (scale2 x (- (- int k))))) (- int k) = x"
    by (simp only: up round_half_even_of_int down)
  have big: "\<bar>x\<bar> < 2 ^ 1024"
    using small by (rule less_trans) simp
  then have range: "\<not> 2 ^ 1024 \<le> x" "\<not> x \<le> - (2 ^ 1024)" by linarith+
  show ?thesis
    unfolding binary64_def Let_def e r
    using False range by (simp only: if_False)
qed

lemma binary64_numeral [simp]:
  "numeral k < (9007199254740992::rat) \<Longrightarrow> binary64 (numeral k) = Fin (numeral k)"
  by (rule binary64_int) simp_all

lemma binary64_not_NaN: "binary64 x \<noteq> NaN"
  by (simp add: binary64_def Let_def)

lemma js_add_not_NaN: "a \<noteq> NaN \<Longrightarrow> js_add a (Fin b) \<noteq> NaN"
  by (cases a) (simp_all add: binary64_not_NaN)


section \<open>Grouping by category\<close>

text \<open>The order of numbers and the sign of their difference.\<close>

lemma goes_after_js_sub:
  assumes "p \<noteq> NaN" and "q \<noteq> NaN"
  shows "goes_after (js_sub q p) \<longleftrightarrow> \<not> js_le q p"
  using assms by (cases p; cases q) auto

lemma js_le_total:
  assumes "p \<noteq> NaN" and "q \<noteq> NaN"
  shows "js_le p q \<or> js_le q p"
  using assms by (cases p; cases q) auto

lemma js_le_trans:
  assumes "js_le p q" and "js_le q r"
  shows "js_le p r"
  using assms by (cases p; cases q; cases r) auto

lemma first_occurrences_snoc:
  "first_occurrences (xs @ [x]) =
     (if x \<in> set xs then first_occurrences xs else first_occurrences xs @ [x])"
  by (simp add: first_occurrences_def)

lemma set_first_occurrences: "set (first_occurrences xs) = set xs"
  by (simp add: first_occurrences_def)

lemma distinct_first_occurrences: "distinct (first_occurrences xs)"
  by (simp add: first_occurrences_def)

lemma map_of_keyed:
  "map_of (map (\<lambda>c. (c, f c)) ks) k = (if k \<in> set ks then Some (f k) else None)"
  by (induction ks) simp_all

lemma obj_get_keyed:
  "obj_get (map (\<lambda>c. (c, f c)) ks) k =
     (if k \<in> set ks then f k else if prototype_member k then ObjectRef else Undefined)"
  by (simp add: obj_get_def map_of_keyed prototype_member_def)

lemma obj_set_keyed:
  assumes "distinct ks" and "k \<noteq> ''__proto__''"
  shows "obj_set (map (\<lambda>c. (c, f c)) ks) k v =
           (if k \<in> set ks then map (\<lambda>c. (c, if c = k then v else f c)) ks
            else map (\<lambda>c. (c, f c)) ks @ [(k, v)])"
  using assms by (induction ks) auto

lemma obj_set_proto:
  assumes "''__proto__'' \<notin> fst ` set obj"
  shows "obj_set obj ''__proto__'' v = obj"
  using assms by (induction obj) auto

lemma category_total_Nil: "category_total [] c = Fin 0"
  by (simp add: category_total_def)

lemma category_total_snoc:
  "category_total (es @ [e]) c =
     (if expense.category e = c then js_add (category_total es c) (Fin (amount e))
      else category_total es c)"
  by (simp add: category_total_def)

lemma foldl_js_add_not_NaN:
  "a \<noteq> NaN \<Longrightarrow> foldl js_add a (map Fin xs) \<noteq> NaN"
  by (induction xs arbitrary: a) (simp_all add: js_add_not_NaN)

lemma category_total_not_NaN: "category_total es c \<noteq> NaN"
  unfolding category_total_def
  using foldl_js_add_not_NaN [of "Fin 0" "map amount (filter (\<lambda>e. expense.category e = c) es)"]
  by (simp add: o_def)

lemma category_total_absent:
  assumes "c \<notin> expense.category ` set es"
  shows "category_total es c = Fin 0"
proof -
  have "expense.category x \<noteq> c" if "x \<in> set es" for x
    using assms that by (metis imageI)
  then have "filter (\<lambda>x. expense.category x = c) es = []"
    by (simp add: filter_empty_conv)
  then show ?thesis by (simp add: category_total_def)
qed

lemma or_zero_Number: "n \<noteq> NaN \<Longrightarrow> or_zero (Number n) = Number n"
  by (auto simp: or_zero_def)

lemma or_zero_Undefined: "or_zero Undefined = Number (Fin 0)"
  by (simp add: or_zero_def)

lemma category_spending_snoc:
  "category_spending (es @ [e]) =
     obj_set (category_spending es) (expense.category e)
       (js_plus (or_zero (obj_get (category_spending es) (expense.category e))) (Fin (amount e)))"
  by (simp add: category_spending_def)

lemma category_spending_keyed:
  assumes "\<forall>e \<in> set es. \<not> prototype_member (expense.category e)"
  shows "category_spending es =
     map (\<lambda>c. (c, Number (category_total es c))) (first_occurrences (map expense.category es))"
  using assms
proof (induction es rule: rev_induct)
  case Nil
  show ?case by (simp add: category_spending_def first_occurrences_def)
next
  case (snoc e es)
  let ?k = "expense.category e"
  let ?ks = "first_occurrences (map expense.category es)"
  have IH: "category_spending es = map (\<lambda>c. (c, Number (category_total es c))) ?ks"
    using snoc by simp
  have plain: "\<not> prototype_member ?k"
    using snoc.prems by simp
  then have not_proto: "?k \<noteq> ''__proto__''"
    by (auto simp: prototype_member_def)
  have new_value:
    "js_plus (or_zero (obj_get (category_spending es) ?k)) (Fin (amount e)) =
       Number (js_add (category_total es ?k) (Fin (amount e)))"
  proof (cases "?k \<in> set ?ks")
    case True
    then show ?thesis
      by (simp add: IH obj_get_keyed or_zero_Number category_total_not_NaN)
  next
    case False
    then have "category_total es ?k = Fin 0"
      by (intro category_total_absent) (simp add: set_first_occurrences)
    with False plain show ?thesis
      by (simp add: IH obj_get_keyed or_zero_Undefined)
  qed
  show ?case
  proof (cases "?k \<in> set ?ks")
    case True
    then have "?k \<in> set (map expense.category es)"
      by (simp add: set_first_occurrences)
    then have "first_occurrences (map expense.category (es @ [e])) = ?ks"
      by (simp add: first_occurrences_snoc)
    moreover have "category_spending (es @ [e]) =
        map (\<lambda>c. (c, if c = ?k then Number (js_add (category_total es ?k) (Fin (amount e)))
                      else Number (category_total es c))) ?ks"
      using True not_proto
      by (simp only: category_spending_snoc new_value)
         (simp add: IH obj_set_keyed distinct_first_occurrences)
    ultimately show ?thesis
      by (simp add: category_total_snoc cong: map_cong)
  next
    case False
    then have "?k \<notin> set (map expense.category es)"
      by (simp add: set_first_occurrences)
    then have "first_occurrences (map expense.category (es @ [e])) = ?ks @ [?k]"
      by (simp add: first_occurrences_snoc)
    moreover have "category_spending (es @ [e]) =
        map (\<lambda>c. (c, Number (category_total es c))) ?ks @
        [(?k, Number (js_add (category_total es ?k) (Fin (amount e))))]"
      using False not_proto
      by (simp only: category_spending_snoc new_value)
         (simp add: IH obj_set_keyed distinct_first_occurrences)
    ultimately show ?thesis
      using False by (simp add: category_total_snoc cong: map_cong)
  qed
qed

lemma insort_key_keyed:
  "insort_key (\<lambda>(k, v). g k) (x, f x) (map (\<lambda>c. (c, f c)) ys) =
     map (\<lambda>c. (c, f c)) (insort_key g x ys)"
  by (induction ys) simp_all

lemma sort_key_keyed:
  "sort_key (\<lambda>(k, v). g k) (map (\<lambda>c. (c, f c)) xs) = map (\<lambda>c. (c, f c)) (sort_key g xs)"
  by (induction xs) (simp_all add: insort_key_keyed)

lemma filter_keyed:
  "filter (\<lambda>(k, v). P k) (map (\<lambda>c. (c, f c)) xs) = map (\<lambda>c. (c, f c)) (filter P xs)"
  by (induction xs) simp_all

lemma Object_entries_keyed:
  "Object_entries (map (\<lambda>c. (c, f c)) ks) = map (\<lambda>c. (c, f c)) (property_order ks)"
  by (simp add: Object_entries_def property_order_def filter_keyed sort_key_keyed)

lemma set_property_order: "set (property_order ks) = set ks"
  by (auto simp: property_order_def)

lemma distinct_property_order: "distinct ks \<Longrightarrow> distinct (property_order ks)"
  by (auto simp: property_order_def)

lemma category_data_keyed:
  assumes "\<forall>e \<in> set es. \<not> prototype_member (expense.category e)"
  shows "category_data es =
     array_sort (\<lambda>a b. js_sub (to_number (value b)) (to_number (value a)))
       (map (\<lambda>c. \<lparr>name = c, value = Number (category_total es c)\<rparr>)
          (property_order (first_occurrences (map expense.category es))))"
  by (simp add: category_data_def category_spending_keyed [OF assms] Object_entries_keyed o_def)

lemma js_sub_same: "\<not> goes_after (js_sub n n)"
  by (cases n) simp_all

text \<open>
  C7, amended. When no category names a member of \<^verbatim>\<open>Object.prototype\<close>, the grouping by
  category has one entry for each distinct category, valued with the sum of the amounts
  of the category, added in the order of the list, and it is sorted by value, highest
  first; entries of equal value stand in the order in which the accumulator object lists
  its keys: the categories that are array indices in ascending numeric order, then the
  other categories in the order of their first occurrence.
\<close>

theorem category_data_ranked:
  assumes "\<forall>e \<in> set es. \<not> prototype_member (expense.category e)"
  shows "let cats = property_order (first_occurrences (map expense.category es));
             entries = map (\<lambda>c. \<lparr>name = c, value = Number (category_total es c)\<rparr>) cats;
             cd = category_data es
         in distinct cats \<and> set cats = expense.category ` set es \<and>
            mset cd = mset entries \<and>
            sorted_wrt (\<lambda>a b. js_le (to_number (value b)) (to_number (value a))) cd \<and>
            (\<forall>v. filter (\<lambda>d. value d = v) cd = filter (\<lambda>d. value d = v) entries)"
proof -
  let ?cmp = "\<lambda>a b :: chart_datum. js_sub (to_number (value b)) (to_number (value a))"
  let ?cats = "property_order (first_occurrences (map expense.category es))"
  let ?entries = "map (\<lambda>c. \<lparr>name = c, value = Number (category_total es c)\<rparr>) ?cats"
  have cd: "category_data es = array_sort ?cmp ?entries"
    by (rule category_data_keyed [OF assms])
  have number: "to_number (value d) \<noteq> NaN" if "d \<in> set ?entries" for d
    using that by (auto simp: category_total_not_NaN)
  have "distinct ?cats"
    by (simp add: distinct_property_order distinct_first_occurrences)
  moreover have "set ?cats = expense.category ` set es"
    by (simp add: set_property_order set_first_occurrences)
  moreover have "mset (category_data es) = mset ?entries"
    by (simp only: cd mset_array_sort)
  moreover have "sorted_wrt (\<lambda>a b. js_le (to_number (value b)) (to_number (value a)))
                   (category_data es)"
    unfolding cd
  proof (rule sorted_wrt_array_sort)
    fix x y assume xy: "x \<in> set ?entries" "y \<in> set ?entries"
    show "goes_after (?cmp x y) \<Longrightarrow> js_le (to_number (value x)) (to_number (value y))"
      using js_le_total [OF number [OF xy(1)] number [OF xy(2)]]
      by (simp add: goes_after_js_sub [OF number [OF xy(1)] number [OF xy(2)]])
    show "\<not> goes_after (?cmp x y) \<Longrightarrow> js_le (to_number (value y)) (to_number (value x))"
      by (simp add: goes_after_js_sub [OF number [OF xy(1)] number [OF xy(2)]])
  next
    fix x y z :: chart_datum
    show "js_le (to_number (value y)) (to_number (value x)) \<Longrightarrow>
          js_le (to_number (value z)) (to_number (value y)) \<Longrightarrow>
          js_le (to_number (value z)) (to_number (value x))"
      by (rule js_le_trans)
  qed
  moreover have "filter (\<lambda>d. value d = v) (category_data es) = filter (\<lambda>d. value d = v) ?entries"
    for v
    unfolding cd by (rule filter_array_sort) (simp add: js_sub_same)
  ultimately show ?thesis
    by (simp add: Let_def)
qed

lemmas object_defs =
  category_data_def category_spending_def obj_get_def or_zero_def Object_entries_def
  is_array_index_def is_digit_def decimal_value_def digit_value_def array_sort_def
  object_prototype_methods_def

text \<open>
  C7, as the specification states it, fails: two categories of equal value that are
  array indices are listed in numeric order, not in the order of their first occurrence.
\<close>

theorem category_ties_counterexample:
  "map name (category_data tied_numeric_expenses) = [''1'', ''2''] \<and>
   map value (category_data tied_numeric_expenses) = [Number (Fin 5), Number (Fin 5)] \<and>
   first_occurrences (map expense.category tied_numeric_expenses) = [''2'', ''1'']"
  by (simp add: tied_numeric_expenses_def example_defs object_defs first_occurrences_def)

text \<open>Four categories, two of them array indices, three of them tied at 5.\<close>

theorem category_data_ranked_witness:
  "list_all (\<lambda>e. \<not> prototype_member (expense.category e)) mixed_expenses \<and>
   property_order (first_occurrences (map expense.category mixed_expenses))
     = [''9'', ''10'', ''Food'', ''Rent''] \<and>
   category_data mixed_expenses =
     [\<lparr>name = ''Rent'', value = Number (Fin 9)\<rparr>, \<lparr>name = ''9'', value = Number (Fin 5)\<rparr>,
      \<lparr>name = ''10'', value = Number (Fin 5)\<rparr>, \<lparr>name = ''Food'', value = Number (Fin 5)\<rparr>]"
  using category_data_ranked [of mixed_expenses]
  by (simp add: mixed_expenses_def example_defs object_defs first_occurrences_def
      property_order_def prototype_member_def)

text \<open>
  A category called \<^verbatim>\<open>__proto__\<close> gets no entry: what is read under that name is the
  prototype, and what is written under it is dropped.
\<close>

lemma proto_no_entry:
  "category_data proto_expenses = [\<lparr>name = ''Food'', value = Number (Fin 3)\<rparr>] \<and>
   total_spent proto_expenses = Fin 8"
  by (simp add: proto_expenses_def example_defs object_defs total_spent_def)

subsection \<open>The sum of the groups and the sum of the list\<close>

lemma floor_numeral_quotient:
  "\<lfloor>numeral a / numeral b :: rat\<rfloor> = numeral a div numeral b"
  by (metis floor_divide_of_int_eq of_int_numeral)

lemmas binary64_eval =
  binary64_def Let_def floor_log2_def halvings.simps doublings.simps scale2_def
  round_half_even_def floor_numeral_quotient















text \<open>It fails as well for a category that gets no entry.\<close>

lemma category_groups_proto:
  "sum_of_values (category_data proto_expenses) = Fin 3 \<and> total_spent proto_expenses = Fin 8"
  by (simp add: proto_no_entry sum_of_values_def)

section \<open>The report filter\<close>

text \<open>
  C3. The report filter returns a subsequence of the expenses, in their order: exactly the
  expenses whose date is not before the start date, when one is given, not after the end
  date, when one is given, and whose category is the selected one, when one is selected.
  With no criterion given it returns the expenses unchanged.
\<close>

theorem filteredExpenses_subsequence:
  "\<exists>r. filteredExpenses (Array es) startDate endDate selectedCategory = Returned r \<and>
        subseq r es \<and>
        r = filter (\<lambda>e. (startDate \<noteq> [] \<longrightarrow> startDate \<le> date e) \<and>
                        (endDate \<noteq> [] \<longrightarrow> date e \<le> endDate) \<and>
                        (selectedCategory \<noteq> [] \<longrightarrow> expense.category e = selectedCategory)) es \<and>
        (startDate = [] \<and> endDate = [] \<and> selectedCategory = [] \<longrightarrow> r = es)"
proof -
  define keep where "keep = (\<lambda>e :: expense. (startDate \<noteq> [] \<longrightarrow> startDate \<le> date e) \<and>
                        (endDate \<noteq> [] \<longrightarrow> date e \<le> endDate) \<and>
                        (selectedCategory \<noteq> [] \<longrightarrow> expense.category e = selectedCategory))"
  have "filteredExpenses (Array es) startDate endDate selectedCategory = Returned (filter keep es)"
    unfolding filteredExpenses_def keep_def Let_def
    by (simp, intro filter_cong, auto)
  moreover have "subseq (filter keep es) es"
    by (rule subseq_filter_left)
  moreover have "filter keep es = es" if "startDate = [] \<and> endDate = [] \<and> selectedCategory = []"
    using that by (simp add: keep_def)
  ultimately show ?thesis
    unfolding keep_def by blast
qed

theorem filteredExpenses_subsequence_witness:
  "filteredExpenses (Array overspent_expenses) ''2025-08-02'' ''2025-08-31'' ''Food''
     = Returned [example_expense ''Food'' 50 ''2025-08-15''] \<and>
   subseq [example_expense ''Food'' 50 ''2025-08-15''] overspent_expenses \<and>
   filteredExpenses (Array overspent_expenses) [] [] [] = Returned overspent_expenses"
proof -
  obtain r where r: "filteredExpenses (Array overspent_expenses) ''2025-08-02'' ''2025-08-31'' ''Food''
      = Returned r" "subseq r overspent_expenses"
    using filteredExpenses_subsequence [of overspent_expenses "''2025-08-02''" "''2025-08-31''" "''Food''"]
    by blast
  have "filteredExpenses (Array overspent_expenses) ''2025-08-02'' ''2025-08-31'' ''Food''
     = Returned [example_expense ''Food'' 50 ''2025-08-15'']"
    by (simp add: filteredExpenses_def example_defs)
  with r have "r = [example_expense ''Food'' 50 ''2025-08-15'']"
    by simp
  moreover have "filteredExpenses (Array overspent_expenses) [] [] [] = Returned overspent_expenses"
    using filteredExpenses_subsequence [of overspent_expenses "[]" "[]" "[]"] by auto
  ultimately show ?thesis
    using r by simp
qed

section \<open>Empty and ill-typed inputs, and the dashboard\<close>

lemma category_spending_Nil: "category_spending [] = []"
  by (simp add: category_spending_def)

lemma Object_entries_Nil: "Object_entries [] = []"
  by (simp add: Object_entries_def)

lemma array_sort_Nil: "array_sort cmp [] = []"
  by (simp add: array_sort_def)

text \<open>
  C8. On empty collections every aggregation returns an empty or zero result and raises
  nothing: the filter the empty list, the report metrics \<^verbatim>\<open>null\<close>, the sums zero, the
  groupings empty, the top category none, the dashboard zero metrics, the budget list
  the empty list.
\<close>

theorem empty_input_yields_empty_results:
  "filteredExpenses (Array []) startDate endDate selectedCategory = Returned [] \<and>
   reportMetrics west [] = Returned None \<and>
   total_spent [] = Fin 0 \<and>
   category_data [] = [] \<and>
   monthly_data west [] = [] \<and>
   top_category (category_data []) = None \<and>
   dashboardMetrics (Array []) (Array []) selectedMonth =
     Returned (Some \<lparr>totalMonthlySpend = 0, totalBudget = 0, remainingBudget = 0,
                     categoryData = [], categoriesCount = 0, recentExpenses = []\<rparr>) \<and>
   budgetsWithSpending (Array []) (Array []) filterMonth = Returned [] \<and>
   budgetsWithSpending (Array []) (Array es) filterMonth = Returned [] \<and>
   actualSpent (budget_progress [] b) = 0 \<and>
   remaining (budget_progress [] b) = monthlyLimit b"
  by (simp add: filteredExpenses_def reportMetrics_def total_spent_def category_data_def
      monthly_data_def monthly_spending_def category_spending_Nil Object_entries_Nil
      array_sort_Nil dashboardMetrics_def budgetsWithSpending_def progress_defs)

theorem empty_input_yields_empty_results_witness:
  "filteredExpenses (Array []) ''2025-08-01'' ''2025-08-31'' ''Food'' = Returned [] \<and>
   reportMetrics False [] = Returned None \<and>
   dashboardMetrics (Array []) (Array []) ''2025-08'' =
     Returned (Some \<lparr>totalMonthlySpend = 0, totalBudget = 0, remainingBudget = 0,
                     categoryData = [], categoriesCount = 0, recentExpenses = []\<rparr>) \<and>
   budgetsWithSpending (Array []) (Array []) ''2025-08'' = Returned [] \<and>
   remaining (budget_progress [] (example_budget ''Food'' 100 ''2025-08'')) = 100"
  using empty_input_yields_empty_results
    [of "''2025-08-01''" "''2025-08-31''" "''Food''" False "''2025-08''" "''2025-08''" "[]"
        "example_budget ''Food'' 100 ''2025-08''"]
  by (simp add: example_defs)

text \<open>
  C9, as the specification states it, fails: for an input that is not an array the report
  filter and the dashboard metrics return, the empty list and \<^verbatim>\<open>null\<close>; no error is raised.
\<close>

theorem non_array_input_counterexample:
  "filteredExpenses NonArray [] [] [] = Returned [] \<and>
   filteredExpenses NonArray [] [] [] \<noteq> Thrown TypeError \<and>
   dashboardMetrics NonArray (Array []) ''2025-08'' = Returned None \<and>
   dashboardMetrics (Array []) Falsy ''2025-08'' = Returned None"
  by (simp add: filteredExpenses_def dashboardMetrics_def)

text \<open>
  C9, amended, for the two computations the claim is drawn from. Given something that is
  not an array for its expenses, the report filter returns the empty list; given
  something that is not an array for its expenses or for its budgets, the dashboard
  metrics are \<^verbatim>\<open>null\<close>. Given empty arrays, the filter returns the empty list and the
  dashboard metrics are a record of zeros. (The budget list is not part of this: see
  the lemma that follows.)
\<close>

theorem non_array_input_yields_sentinel:
  "(\<not> isArray expenses \<longrightarrow>
      filteredExpenses expenses startDate endDate selectedCategory = Returned []) \<and>
   (\<not> isArray expenses \<or> \<not> isArray budgets \<longrightarrow>
      dashboardMetrics expenses budgets selectedMonth = Returned None) \<and>
   filteredExpenses (Array []) startDate endDate selectedCategory = Returned [] \<and>
   dashboardMetrics (Array []) (Array []) selectedMonth =
     Returned (Some \<lparr>totalMonthlySpend = 0, totalBudget = 0, remainingBudget = 0,
                     categoryData = [], categoriesCount = 0, recentExpenses = []\<rparr>)"
  by (simp add: filteredExpenses_def dashboardMetrics_def category_spending_Nil
      Object_entries_Nil)

theorem non_array_input_yields_sentinel_witness:
  "\<not> isArray (NonArray :: expense fetched) \<and>
   filteredExpenses NonArray ''2025-08-01'' [] ''Food'' = Returned [] \<and>
   dashboardMetrics NonArray (Array [example_budget ''Food'' 100 ''2025-08'']) ''2025-08''
     = Returned None \<and>
   dashboardMetrics (Array overspent_expenses) Falsy ''2025-08'' = Returned None"
  using non_array_input_yields_sentinel
      [of NonArray "''2025-08-01''" "[]" "''Food''" "Array [example_budget ''Food'' 100 ''2025-08'']"
          "''2025-08''"]
    non_array_input_yields_sentinel
      [of "Array overspent_expenses" "[]" "[]" "[]" Falsy "''2025-08''"]
  by simp

text \<open>
  The budget list guards against falsy data only: for those it returns the empty list,
  while a truthy value without array methods makes the call of \<^verbatim>\<open>filter\<close> raise a
  \<^verbatim>\<open>TypeError\<close>.
\<close>

lemma budgetsWithSpending_not_array:
  "budgetsWithSpending Falsy expenses filterMonth = Returned [] \<and>
   budgetsWithSpending budgets Falsy filterMonth = Returned [] \<and>
   budgetsWithSpending NonArray NonArray filterMonth = Thrown TypeError \<and>
   budgetsWithSpending NonArray (Array es) filterMonth = Thrown TypeError \<and>
   budgetsWithSpending (Array [b]) NonArray [] = Thrown TypeError"
  by (simp add: budgetsWithSpending_def)

text \<open>
  C10. The number of categories on the dashboard is the number of distinct categories of
  all expenses, whatever month is selected: for any two months the two counts are equal.
  The monthly total and the category chart do depend on the month.
\<close>

theorem categories_count_ignores_month:
  "(\<exists>d1 d2. dashboardMetrics (Array es) (Array bs) m1 = Returned (Some d1) \<and>
            dashboardMetrics (Array es) (Array bs) m2 = Returned (Some d2) \<and>
            categoriesCount d1 = categoriesCount d2 \<and>
            categoriesCount d1 = card (expense.category ` set es)) \<and>
   (\<exists>d1 d2. dashboardMetrics (Array overspent_expenses) (Array []) ''2025-08'' = Returned (Some d1) \<and>
            dashboardMetrics (Array overspent_expenses) (Array []) ''2025-09'' = Returned (Some d2) \<and>
            totalMonthlySpend d1 \<noteq> totalMonthlySpend d2 \<and>
            dashboard_metrics.categoryData d1 \<noteq> dashboard_metrics.categoryData d2)"
  by (simp add: dashboardMetrics_def Let_def example_defs startsWith_def object_defs)

theorem categories_count_ignores_month_witness:
  "\<exists>d1 d2. dashboardMetrics (Array overspent_expenses) (Array []) ''2025-08'' = Returned (Some d1) \<and>
           dashboardMetrics (Array overspent_expenses) (Array []) ''2025-09'' = Returned (Some d2) \<and>
           categoriesCount d1 = 2 \<and> categoriesCount d2 = 2 \<and>
           totalMonthlySpend d1 = 157 \<and> totalMonthlySpend d2 = 9 \<and>
           map name (dashboard_metrics.categoryData d1) = [''Food'', ''Transport''] \<and>
           map name (dashboard_metrics.categoryData d2) = [''Food'']"
  using categories_count_ignores_month [of overspent_expenses "[]" "''2025-08''" "''2025-09''"]
  by (simp add: dashboardMetrics_def Let_def example_defs startsWith_def object_defs
      card_insert_if)

section \<open>The display order of the budgets\<close>

lemma percentage_NaN_iff:
  "percentageUsed (budget_progress es b) = NaN \<longleftrightarrow>
     monthlyLimit b = 0 \<and> actualSpent (budget_progress es b) = 0"
  by (simp add: progress_defs js_min_def)

lemma goes_after_rank_compare:
  assumes "percentageUsed a \<noteq> NaN" and "percentageUsed b \<noteq> NaN"
  shows "goes_after (rank_compare a b) \<longleftrightarrow>
           month a < month b \<or>
           month a = month b \<and>
             (\<not> isOverBudget a \<and> isOverBudget b \<or>
              isOverBudget a = isOverBudget b \<and> \<not> js_le (percentageUsed b) (percentageUsed a))"
  using assms by (auto simp: rank_compare_def localeCompare_def goes_after_js_sub)

lemma rank_compare_total:
  assumes "percentageUsed a \<noteq> NaN" and "percentageUsed b \<noteq> NaN"
    and "goes_after (rank_compare a b)"
  shows "display_order b a"
  using assms(3) js_le_total [OF assms(1,2)]
  unfolding goes_after_rank_compare [OF assms(1,2)] display_order_def
  by auto

lemma rank_compare_le:
  assumes "percentageUsed a \<noteq> NaN" and "percentageUsed b \<noteq> NaN"
    and "\<not> goes_after (rank_compare a b)"
  shows "display_order a b"
  using assms(3)
  unfolding goes_after_rank_compare [OF assms(1,2)] display_order_def
  by auto

lemma display_order_trans:
  assumes "display_order a b" and "display_order b c"
  shows "display_order a c"
  using assms unfolding display_order_def
  by (auto dest: js_le_trans)

lemma rank_compare_tie:
  assumes "month a = month b" and "isOverBudget a = isOverBudget b"
    and "percentageUsed a = percentageUsed b"
  shows "\<not> goes_after (rank_compare a b)"
  using assms by (cases "percentageUsed b") (simp_all add: rank_compare_def)

lemma sorted_wrt_rank:
  assumes "\<forall>x \<in> set xs. percentageUsed x \<noteq> NaN"
  shows "sorted_wrt display_order (array_sort rank_compare xs)"
proof (rule sorted_wrt_array_sort)
  fix x y assume "x \<in> set xs" "y \<in> set xs"
  then have pq: "percentageUsed x \<noteq> NaN" "percentageUsed y \<noteq> NaN"
    using assms by blast+
  show "goes_after (rank_compare x y) \<Longrightarrow> display_order y x"
    by (rule rank_compare_total [OF pq])
  show "\<not> goes_after (rank_compare x y) \<Longrightarrow> display_order x y"
    by (rule rank_compare_le [OF pq])
next
  fix x y z
  show "display_order x y \<Longrightarrow> display_order y z \<Longrightarrow> display_order x z"
    by (rule display_order_trans)
qed

text \<open>
  C4, as the specification states it, fails for a budget with a limit of zero and no
  spending: its percentage is NaN, every comparison with it gives NaN, which counts as a
  tie, and a budget with 10 percent stays in front of one with 90 percent.
\<close>

theorem budgets_ranked_counterexample:
  "\<exists>ranked. budgetsWithSpending (Array unspent_budgets) (Array unspent_expenses) [] = Returned ranked \<and>
     map month ranked = [''2025-08'', ''2025-08'', ''2025-08''] \<and>
     map isOverBudget ranked = [False, False, False] \<and>
     map percentageUsed ranked = [Fin 10, NaN, Fin 90] \<and>
     \<not> sorted_wrt display_order ranked"
  by (simp add: budgetsWithSpending_def unspent_budgets_def unspent_expenses_def example_defs
      progress_defs startsWith_def js_min_def array_sort_def rank_compare_def
      localeCompare_def display_order_def)

text \<open>
  C4, amended. When no budget that is displayed has both a limit of zero and no spending
  (the percentage of such a budget is NaN), the budget list is displayed in the order of
  a stable sort by three keys: the result is a permutation of the displayed budgets with
  their progress; the budgets of a later month stand before those of an earlier month,
  within a month the budgets that are over stand before the others, and among those the
  higher percentage stands first; budgets that agree in all three keys keep the order of
  the input. In particular, of two budgets of one month, one that is over is never
  behind one that is not.
\<close>

theorem budgets_ranked_for_display:
  assumes "\<forall>b \<in> set bs. (filterMonth = [] \<or> month b = filterMonth) \<longrightarrow>
             monthlyLimit b \<noteq> 0 \<or> actualSpent (budget_progress es b) \<noteq> 0"
  shows "\<exists>ranked.
           budgetsWithSpending (Array bs) (Array es) filterMonth = Returned ranked \<and>
           (let shown = map (budget_progress es)
                          (filter (\<lambda>b. filterMonth = [] \<or> month b = filterMonth) bs)
            in mset ranked = mset shown \<and>
               sorted_wrt display_order ranked \<and>
               (\<forall>m over p.
                  filter (\<lambda>b. month b = m \<and> isOverBudget b = over \<and> percentageUsed b = p) ranked =
                  filter (\<lambda>b. month b = m \<and> isOverBudget b = over \<and> percentageUsed b = p) shown) \<and>
               (\<forall>i j. i < j \<and> j < length ranked \<and> month (ranked ! i) = month (ranked ! j) \<and>
                      isOverBudget (ranked ! j) \<longrightarrow> isOverBudget (ranked ! i)))"
proof -
  define shown where
    "shown = map (budget_progress es) (filter (\<lambda>b. filterMonth = [] \<or> month b = filterMonth) bs)"
  define ranked where "ranked = array_sort rank_compare shown"
  have returned: "budgetsWithSpending (Array bs) (Array es) filterMonth = Returned ranked"
    by (simp add: budgetsWithSpending_def ranked_def shown_def)
  have finite: "\<forall>x \<in> set shown. percentageUsed x \<noteq> NaN"
    using assms by (auto simp: shown_def percentage_NaN_iff)
  have perm: "mset ranked = mset shown"
    by (simp add: ranked_def mset_array_sort)
  have sorted: "sorted_wrt display_order ranked"
    unfolding ranked_def by (rule sorted_wrt_rank [OF finite])
  have stable: "filter (\<lambda>b. month b = m \<and> isOverBudget b = over \<and> percentageUsed b = p) ranked =
                filter (\<lambda>b. month b = m \<and> isOverBudget b = over \<and> percentageUsed b = p) shown"
    for m over p
    unfolding ranked_def by (rule filter_array_sort) (simp add: rank_compare_tie)
  have over_first: "isOverBudget (ranked ! i)"
    if "i < j" "j < length ranked" "month (ranked ! i) = month (ranked ! j)"
      "isOverBudget (ranked ! j)" for i j
  proof -
    have "display_order (ranked ! i) (ranked ! j)"
      using sorted that(1,2) by (simp add: sorted_wrt_iff_nth_less)
    with that(3,4) show ?thesis
      by (auto simp: display_order_def)
  qed
  show ?thesis
    unfolding Let_def shown_def [symmetric]
    using returned perm sorted stable over_first by blast
qed

theorem budgets_ranked_for_display_witness:
  "\<exists>ranked. budgetsWithSpending (Array (ranking_budgets @ [example_budget ''Rent'' 0 ''2025-07'']))
               (Array overspent_expenses) ''2025-08'' = Returned ranked \<and>
     map month ranked = [''2025-08'', ''2025-08'', ''2025-08''] \<and>
     map budget.category ranked = [''Food'', ''Transport'', ''Transport''] \<and>
     map monthlyLimit ranked = [100, 0, 100] \<and>
     map isOverBudget ranked = [True, True, False] \<and>
     map percentageUsed ranked = [Fin 100, Fin 100, Fin 7]"
  using budgets_ranked_for_display
    [of "ranking_budgets @ [example_budget ''Rent'' 0 ''2025-07'']" "''2025-08''"
        overspent_expenses]
  by (simp add: budgetsWithSpending_def ranking_budgets_def example_defs progress_defs
      startsWith_def js_min_def array_sort_def rank_compare_def localeCompare_def)

section \<open>Grouping by month\<close>

lemma show_nat_2024: "show_nat 2024 = ''2024''"
  by (simp add: show_nat.simps)

lemma show_nat_2025: "show_nat 2025 = ''2025''"
  by (simp add: show_nat.simps)

lemmas month_defs =
  monthly_data_def monthly_spending_def obj_get_def or_zero_def Object_entries_def
  is_array_index_def is_digit_def decimal_value_def digit_value_def array_sort_def
  month_label_def short_month_names_def localeCompare_def object_prototype_methods_def

text \<open>
  C2 fails on the code: the entries are sorted by their labels, not by their keys. For
  expenses in July and August 2024 the entry of August stands before the entry of July,
  east and west of UTC alike.
\<close>

theorem monthly_data_sorted_by_label:
  "Object_entries (monthly_spending summer_expenses) =
     [(''2024-07'', Number (Fin 10)), (''2024-08'', Number (Fin 20))] \<and>
   monthly_data False summer_expenses =
     [\<lparr>name = ''Aug 2024'', value = Number (Fin 20)\<rparr>, \<lparr>name = ''Jul 2024'', value = Number (Fin 10)\<rparr>] \<and>
   monthly_data True summer_expenses =
     [\<lparr>name = ''Jul 2024'', value = Number (Fin 20)\<rparr>, \<lparr>name = ''Jun 2024'', value = Number (Fin 10)\<rparr>]"
  by (simp add: summer_expenses_def example_defs month_defs show_nat_2024 Let_def)

text \<open>
  December 2024 does stand before January 2025 where local time is not west of UTC; west
  of UTC the two labels are those of November and December 2024 and the order is
  reversed.
\<close>

lemma monthly_data_new_year:
  "monthly_data False new_year_expenses =
     [\<lparr>name = ''Dec 2024'', value = Number (Fin 10)\<rparr>, \<lparr>name = ''Jan 2025'', value = Number (Fin 20)\<rparr>] \<and>
   monthly_data True new_year_expenses =
     [\<lparr>name = ''Dec 2024'', value = Number (Fin 20)\<rparr>, \<lparr>name = ''Nov 2024'', value = Number (Fin 10)\<rparr>]"
  by (simp add: new_year_expenses_def example_defs month_defs show_nat_2024 show_nat_2025 Let_def)

text \<open>The report of the three expenses of the specification's example.\<close>

lemma report_metrics_example:
  "reportMetrics False spec_example_expenses =
     Returned (Some
       \<lparr>totalSpent = Fin 35, averageExpense = Fin (6567749456581973 / 562949953421312),
        expenseCount = 3,
        categoryData = [\<lparr>name = ''Food'', value = Number (Fin 30)\<rparr>,
                        \<lparr>name = ''Transport'', value = Number (Fin 5)\<rparr>],
        monthlyData = [\<lparr>name = ''Aug 2025'', value = Number (Fin 35)\<rparr>],
        topCategory = Some \<lparr>name = ''Food'', value = Number (Fin 30)\<rparr>\<rparr>)"
  by (simp add: reportMetrics_def spec_example_expenses_def example_defs total_spent_def
      object_defs month_defs show_nat_2025 binary64_eval)

end
